theory Spec2Isabelle
  imports Complex_Main "HOL-Library.Word"
begin

section \<open>The odometry display of rviz\<close>

text \<open>
  A shallow embedding of \<^verbatim>\<open>src/default_plugin/odometry_display.cpp\<close>. Every member
  function of \<^verbatim>\<open>OdometryDisplay\<close> becomes a function from the display's state to its
  new state. The arrows live in a store indexed by addresses, as the \<^verbatim>\<open>Arrow*\<close>
  pointers of the deque \<^verbatim>\<open>arrows_\<close> do; \<^verbatim>\<open>new\<close> takes the next address and
  \<^verbatim>\<open>delete\<close> frees one. A \<^verbatim>\<open>float\<close> or a \<^verbatim>\<open>double\<close> is the real number it
  holds, a finite one. The fields of a message are doubles and the values of Ogre are
  floats (\<^verbatim>\<open>Ogre::Real\<close>): the conversion from the one to the other and the
  operations on floats round, and are parameters. A decimal literal of the code is
  written as the float it denotes: \<^verbatim>\<open>0.1\<close> stored in a float is 13421773 / 2^27.
  What the file calls in Ogre, tf and the rest of rviz is not part of the file, and is
  taken as a parameter (the record \<open>env\<close>). The members keep their names without
  the final underscore: \<open>arrows\<close> is \<^verbatim>\<open>arrows_\<close>, \<open>keep\<close> is \<^verbatim>\<open>keep_\<close>.
\<close>

subsection \<open>Data\<close>

datatype vec3 = Vector3 (vec_x: real) (vec_y: real) (vec_z: real)

datatype quaternion = Quaternion (quat_w: real) (quat_x: real) (quat_y: real) (quat_z: real)

type_synonym matrix3 = "vec3 \<times> vec3 \<times> vec3"

datatype Color = Color (color_r: real) (color_g: real) (color_b: real)

text \<open>The fields of \<^verbatim>\<open>nav_msgs::Odometry\<close> that the display reads.\<close>

record odometry =
  header_frame_id :: string
  header_stamp :: nat
  pose_position :: vec3
  pose_orientation :: quaternion

text \<open>\<^verbatim>\<open>tf::Stamped<tf::Pose>\<close>: a rotation and an origin, with a time and a frame.\<close>

record stamped_pose =
  rotation :: quaternion
  origin :: vec3
  stamped_stamp :: nat
  stamped_frame_id :: string

text \<open>What the display sets on an \<^verbatim>\<open>ogre_tools::Arrow\<close>.\<close>

record arrow =
  arrow_geometry :: "real \<times> real \<times> real \<times> real"
  arrow_position :: vec3
  arrow_orientation :: matrix3
  arrow_color :: "real \<times> real \<times> real \<times> real"
  arrow_user_data :: "string option"

type_synonym ptr = nat

datatype property =
  ColorProperty | TopicProperty | KeepProperty
  | PositionToleranceProperty | AngleToleranceProperty

text \<open>
  The functions of Ogre, tf and rviz that the file calls.
  \<open>transformPose\<close> is \<^verbatim>\<open>tf::Transformer::transformPose\<close>: \<open>None\<close> stands for a
  thrown \<^verbatim>\<open>tf::TransformException\<close>, which leaves the pose it was given as it is.
  \<open>to_Real\<close> is the conversion of a \<^verbatim>\<open>double\<close> (or a \<^verbatim>\<open>btScalar\<close>) to
  \<^verbatim>\<open>Ogre::Real\<close>, which rounds it to a float, and \<open>Real_minus\<close> the subtraction of
  two floats, which rounds the difference. \<open>vec_length\<close> is
  \<^verbatim>\<open>Ogre::Vector3::length\<close> and \<open>quat_normalise\<close> the value returned by
  \<^verbatim>\<open>Ogre::Quaternion::normalise\<close>, both computed in floats.
\<close>

record env =
  transformPose :: "string \<Rightarrow> stamped_pose \<Rightarrow> stamped_pose option"
  to_Real :: "real \<Rightarrow> real"
  Real_minus :: "real \<Rightarrow> real \<Rightarrow> real"
  vec_length :: "vec3 \<Rightarrow> real"
  quat_normalise :: "quaternion \<Rightarrow> real"
  getEulerZYX :: "quaternion \<Rightarrow> real \<times> real \<times> real"
  FromEulerAnglesZXY :: "real \<Rightarrow> real \<Rightarrow> real \<Rightarrow> matrix3"
  robotToOgre :: "vec3 \<Rightarrow> vec3"
  Arrow_new :: "real \<Rightarrow> real \<Rightarrow> real \<Rightarrow> real \<Rightarrow> arrow"

text \<open>
  The members of \<^verbatim>\<open>OdometryDisplay\<close> and of its base class \<^verbatim>\<open>Display\<close> that the
  file uses, and what it does to the outside: \<open>scene\<close> holds the arrows that exist,
  \<open>sub\<close> the topic and queue size subscribed to, \<open>tf_filter_target\<close> and
  \<open>tf_filter_queue\<close> the message filter, \<open>ros_errors\<close> the lines written by
  \<^verbatim>\<open>ROS_ERROR\<close>, \<open>tf_requests\<close> the calls of \<open>transformPose\<close>,
  \<open>changed\<close> the calls of \<^verbatim>\<open>propertyChanged\<close> and \<open>renders\<close> the number of
  calls of \<^verbatim>\<open>causeRender\<close>.
\<close>

record display =
  name :: string
  enabled :: bool
  fixed_frame :: string
  topic :: string
  color :: Color
  keep :: "32 word"
  position_tolerance :: real
  angle_tolerance :: real
  arrows :: "ptr list"
  last_used_message :: "odometry option"
  sub :: "(string \<times> nat) option"
  tf_filter_target :: string
  tf_filter_queue :: "odometry list"
  scene_visible :: bool
  scene :: "ptr \<rightharpoonup> arrow"
  next_ptr :: ptr
  ros_errors :: "string list"
  tf_requests :: "(string \<times> stamped_pose) list"
  changed :: "property list"
  renders :: nat

subsection \<open>Vectors, quaternions and arrows\<close>

text \<open>
  The constructors \<^verbatim>\<open>Ogre::Vector3(x, y, z)\<close> and \<^verbatim>\<open>Ogre::Quaternion(w, x, y, z)\<close>
  called on doubles: every component is converted to a float.
\<close>

definition Ogre_Vector3 :: "env \<Rightarrow> vec3 \<Rightarrow> vec3" where
  "Ogre_Vector3 e p = Vector3 (to_Real e (vec_x p)) (to_Real e (vec_y p)) (to_Real e (vec_z p))"

definition Ogre_Quaternion :: "env \<Rightarrow> quaternion \<Rightarrow> quaternion" where
  "Ogre_Quaternion e q =
     Quaternion (to_Real e (quat_w q)) (to_Real e (quat_x q))
       (to_Real e (quat_y q)) (to_Real e (quat_z q))"

text \<open>The operators \<^verbatim>\<open>-\<close> of Ogre, on floats, component by component.\<close>

definition vec_sub :: "env \<Rightarrow> vec3 \<Rightarrow> vec3 \<Rightarrow> vec3" where
  "vec_sub e a b =
     Vector3 (Real_minus e (vec_x a) (vec_x b)) (Real_minus e (vec_y a) (vec_y b))
       (Real_minus e (vec_z a) (vec_z b))"

definition quat_sub :: "env \<Rightarrow> quaternion \<Rightarrow> quaternion \<Rightarrow> quaternion" where
  "quat_sub e a b =
     Quaternion (Real_minus e (quat_w a) (quat_w b)) (Real_minus e (quat_x a) (quat_x b))
       (Real_minus e (quat_y a) (quat_y b)) (Real_minus e (quat_z a) (quat_z b))"

text \<open>
  A call of a member function through an \<^verbatim>\<open>Arrow*\<close>. On a freed address the C++ is
  undefined; the store is then left as it is.
\<close>

definition arrow_call :: "ptr \<Rightarrow> (arrow \<Rightarrow> arrow) \<Rightarrow> (ptr \<rightharpoonup> arrow) \<Rightarrow> (ptr \<rightharpoonup> arrow)" where
  "arrow_call p f h = (case h p of None \<Rightarrow> h | Some a \<Rightarrow> h(p \<mapsto> f a))"

definition arrow_setColor :: "real \<Rightarrow> real \<Rightarrow> real \<Rightarrow> real \<Rightarrow> arrow \<Rightarrow> arrow" where
  "arrow_setColor r g b a ar = ar\<lparr>arrow_color := (r, g, b, a)\<rparr>"

text \<open>The loop of \<^verbatim>\<open>clear\<close>: \<^verbatim>\<open>delete *it\<close> for every element of the deque.\<close>

primrec delete_each :: "ptr list \<Rightarrow> (ptr \<rightharpoonup> arrow) \<Rightarrow> (ptr \<rightharpoonup> arrow)" where
  "delete_each [] h = h"
| "delete_each (p # ps) h = delete_each ps (h(p := None))"

text \<open>The loop of \<^verbatim>\<open>setColor\<close>.\<close>

primrec setColor_each :: "Color \<Rightarrow> ptr list \<Rightarrow> (ptr \<rightharpoonup> arrow) \<Rightarrow> (ptr \<rightharpoonup> arrow)" where
  "setColor_each c [] h = h"
| "setColor_each c (p # ps) h =
     setColor_each c ps (arrow_call p (arrow_setColor (color_r c) (color_g c) (color_b c) 1) h)"

subsection \<open>The member functions\<close>

text \<open>
  The constructor. \<open>name\<close> comes from the caller; the base class starts disabled, with
  an empty fixed frame. The color is \<^verbatim>\<open>(1.0f, 0.1f, 0.0f)\<close> and both tolerances are
  \<^verbatim>\<open>0.1\<close> stored in a float.
\<close>

definition OdometryDisplay :: "string \<Rightarrow> display" where
  "OdometryDisplay n =
     \<lparr>name = n, enabled = False, fixed_frame = [], topic = [],
      color = Color 1 (13421773 / 134217728) 0, keep = 100,
      position_tolerance = 13421773 / 134217728, angle_tolerance = 13421773 / 134217728,
      arrows = [], last_used_message = None, sub = None,
      tf_filter_target = [], tf_filter_queue = [], scene_visible = True,
      scene = Map.empty, next_ptr = 0, ros_errors = [], tf_requests = [],
      changed = [], renders = 0\<rparr>"

definition clear :: "display \<Rightarrow> display" where
  "clear s =
     s\<lparr>scene := delete_each (arrows s) (scene s),
       arrows := [],
       last_used_message := (case last_used_message s of None \<Rightarrow> None | Some m \<Rightarrow> None),
       tf_filter_queue := []\<rparr>"

definition unsubscribe :: "display \<Rightarrow> display" where
  "unsubscribe s = s\<lparr>sub := None\<rparr>"

definition subscribe :: "display \<Rightarrow> display" where
  "subscribe s = (if \<not> enabled s then s else s\<lparr>sub := Some (topic s, 5)\<rparr>)"

definition propertyChanged :: "property \<Rightarrow> display \<Rightarrow> display" where
  "propertyChanged p s = s\<lparr>changed := changed s @ [p]\<rparr>"

definition causeRender :: "display \<Rightarrow> display" where
  "causeRender s = s\<lparr>renders := Suc (renders s)\<rparr>"

definition setTopic :: "string \<Rightarrow> display \<Rightarrow> display" where
  "setTopic t s =
     causeRender (propertyChanged TopicProperty
       (subscribe ((unsubscribe s)\<lparr>topic := t\<rparr>)))"

definition setColor :: "Color \<Rightarrow> display \<Rightarrow> display" where
  "setColor c s =
     causeRender (propertyChanged ColorProperty
       (s\<lparr>color := c, scene := setColor_each c (arrows s) (scene s)\<rparr>))"

definition setKeep :: "32 word \<Rightarrow> display \<Rightarrow> display" where
  "setKeep k s = propertyChanged KeepProperty (s\<lparr>keep := k\<rparr>)"

definition setPositionTolerance :: "real \<Rightarrow> display \<Rightarrow> display" where
  "setPositionTolerance tol s =
     propertyChanged PositionToleranceProperty (s\<lparr>position_tolerance := tol\<rparr>)"

definition setAngleTolerance :: "real \<Rightarrow> display \<Rightarrow> display" where
  "setAngleTolerance tol s =
     propertyChanged AngleToleranceProperty (s\<lparr>angle_tolerance := tol\<rparr>)"

definition onEnable :: "display \<Rightarrow> display" where
  "onEnable s = subscribe (s\<lparr>scene_visible := True\<rparr>)"

definition onDisable :: "display \<Rightarrow> display" where
  "onDisable s = (clear (unsubscribe s))\<lparr>scene_visible := False\<rparr>"

text \<open>
  Modelled from the spec: \<^verbatim>\<open>Display::enable\<close> and \<^verbatim>\<open>Display::disable\<close> of the base
  class, which are not in the file. The spec has two states, Enabled and Disabled;
  \<open>enable()\<close> shows the arrows and subscribes, \<open>disable()\<close> unsubscribes, clears and
  hides. \<^verbatim>\<open>subscribe\<close> reads the state through \<^verbatim>\<open>isEnabled()\<close>, so the base
  class sets the flag and then calls the hook of this file.
\<close>

definition enable :: "display \<Rightarrow> display" where
  "enable s = onEnable (s\<lparr>enabled := True\<rparr>)"

definition disable :: "display \<Rightarrow> display" where
  "disable s = onDisable (s\<lparr>enabled := False\<rparr>)"

text \<open>The line written by \<^verbatim>\<open>ROS_ERROR\<close> in \<^verbatim>\<open>transformArrow\<close>.\<close>

definition error_line :: "string \<Rightarrow> string \<Rightarrow> string \<Rightarrow> string" where
  "error_line n from_frame to_frame =
     ''Error transforming 2d base pose '' @ [CHR 0x27] @ n @ [CHR 0x27]
     @ '' from frame '' @ [CHR 0x27] @ from_frame @ [CHR 0x27]
     @ '' to frame '' @ [CHR 0x27] @ to_frame @ [CHR 0x27, CHR 0x0A]"

text \<open>The pose that \<^verbatim>\<open>transformArrow\<close> hands to the transform service.\<close>

definition message_pose :: "display \<Rightarrow> odometry \<Rightarrow> stamped_pose" where
  "message_pose s message =
     (let frame_id = header_frame_id message;
          frame_id = (if frame_id = [] then fixed_frame s else frame_id)
      in \<lparr>rotation = pose_orientation message, origin = pose_position message,
          stamped_stamp = header_stamp message, stamped_frame_id = frame_id\<rparr>)"

definition transformArrow :: "env \<Rightarrow> odometry \<Rightarrow> ptr \<Rightarrow> display \<Rightarrow> display" where
  "transformArrow e message p s =
     (let pose = message_pose s message;
          s = s\<lparr>tf_requests := tf_requests s @ [(fixed_frame s, pose)]\<rparr>;
          (pose, s) =
            (case transformPose e (fixed_frame s) pose of
               Some pose' \<Rightarrow> (pose', s)
             | None \<Rightarrow>
                 (pose, s\<lparr>ros_errors := ros_errors s
                    @ [error_line (name s) (header_frame_id message) (fixed_frame s)]\<rparr>));
          (yaw, pitch, roll) = getEulerZYX e (rotation pose);
          orient = FromEulerAnglesZXY e (to_Real e roll) (to_Real e pitch) (to_Real e yaw);
          s = s\<lparr>scene := arrow_call p (\<lambda>a. a\<lparr>arrow_orientation := orient\<rparr>) (scene s)\<rparr>;
          pos = robotToOgre e (Ogre_Vector3 e (origin pose))
      in s\<lparr>scene := arrow_call p (\<lambda>a. a\<lparr>arrow_position := pos\<rparr>) (scene s)\<rparr>)"

text \<open>
  The test at the head of \<^verbatim>\<open>processMessage\<close>: there is a last used message, and the
  new one is within both tolerances of it. The positions and orientations of the two
  messages are first stored in vectors and quaternions of Ogre, so in floats; the
  differences, the length and the comparisons with the tolerances (floats too) are
  those of floats.
\<close>

definition within_tolerance :: "env \<Rightarrow> display \<Rightarrow> odometry \<Rightarrow> bool" where
  "within_tolerance e s message =
     (case last_used_message s of
        None \<Rightarrow> False
      | Some last_message \<Rightarrow>
          (let last_position = Ogre_Vector3 e (pose_position last_message);
               current_position = Ogre_Vector3 e (pose_position message);
               last_orientation = Ogre_Quaternion e (pose_orientation last_message);
               current_orientation = Ogre_Quaternion e (pose_orientation message)
           in vec_length e (vec_sub e last_position current_position) < position_tolerance s
              \<and> quat_normalise e (quat_sub e last_orientation current_orientation)
                  < angle_tolerance s))"

definition processMessage :: "env \<Rightarrow> odometry \<Rightarrow> display \<Rightarrow> display" where
  "processMessage e message s =
     (if within_tolerance e s message then s
      else
        let arrow = next_ptr s;
            s = s\<lparr>scene := (scene s)(arrow \<mapsto> Arrow_new e (13421773 / 16777216) (13421773 / 268435456) (13421773 / 67108864)
                    (13421773 / 67108864)),
                  next_ptr := Suc arrow\<rparr>;
            s = transformArrow e message arrow s;
            s = s\<lparr>scene := arrow_call arrow
                  (arrow_setColor (color_r (color s)) (color_g (color s)) (color_b (color s)) 1) (scene s)\<rparr>;
            s = s\<lparr>scene := arrow_call arrow
                  (\<lambda>a. a\<lparr>arrow_user_data := Some (name s)\<rparr>) (scene s)\<rparr>
        in s\<lparr>arrows := arrows s @ [arrow], last_used_message := Some message\<rparr>)"

definition fixedFrameChanged :: "display \<Rightarrow> display" where
  "fixedFrameChanged s = clear (s\<lparr>tf_filter_target := fixed_frame s\<rparr>)"

text \<open>
  \<^verbatim>\<open>update\<close>: the \<^verbatim>\<open>while\<close> loop deletes the front arrow and pops it, as long as
  the deque is longer than \<open>keep\<close>. A deque longer than \<open>keep\<close> is not empty, so
  \<open>hd\<close> is its front and \<open>tl\<close> the rest. The size is a \<^verbatim>\<open>size_t\<close> and
  \<open>keep\<close> is widened to it, so the comparison is the one of the natural numbers.
\<close>

function update_loop :: "display \<Rightarrow> display" where
  "update_loop s =
     (if length (arrows s) > unat (keep s)
      then update_loop (s\<lparr>scene := (scene s)(hd (arrows s) := None), arrows := tl (arrows s)\<rparr>)
      else s)"
  by pat_completeness auto
termination
  by (relation "measure (\<lambda>s. length (arrows s))") auto

declare update_loop.simps [simp del]

definition update :: "display \<Rightarrow> display" where
  "update s = (if keep s > 0 then update_loop s else s)"

definition incomingMessage :: "env \<Rightarrow> odometry \<Rightarrow> display \<Rightarrow> display" where
  "incomingMessage e message s = causeRender (processMessage e message s)"

definition reset :: "display \<Rightarrow> display" where
  "reset s = clear s"

definition targetFrameChanged :: "display \<Rightarrow> display" where
  "targetFrameChanged s = s"

text \<open>The destructor: \<^verbatim>\<open>unsubscribe\<close>, then \<^verbatim>\<open>clear\<close>.\<close>

definition destroy :: "display \<Rightarrow> display" where
  "destroy s = clear (unsubscribe s)"

subsection \<open>Runs of the display\<close>

text \<open>
  What the host does to an enabled display between two calls of \<^verbatim>\<open>clear\<close>: the
  transport delivers a message (\<^verbatim>\<open>incomingMessage\<close>), or the render loop calls
  \<^verbatim>\<open>update\<close>.
\<close>

datatype event = Message odometry | Tick

fun run :: "env \<Rightarrow> event list \<Rightarrow> display \<Rightarrow> display" where
  "run e [] s = s"
| "run e (Message m # evs) s = run e evs (incomingMessage e m s)"
| "run e (Tick # evs) s = run e evs (update s)"

text \<open>The transform service throws on the pose of this message.\<close>

definition transform_fails :: "env \<Rightarrow> display \<Rightarrow> odometry \<Rightarrow> bool" where
  "transform_fails e s m = (transformPose e (fixed_frame s) (message_pose s m) = None)"

text \<open>The number of messages of a run that the tolerance test lets through.\<close>

fun passed_filter :: "env \<Rightarrow> event list \<Rightarrow> display \<Rightarrow> nat" where
  "passed_filter e [] s = 0"
| "passed_filter e (Message m # evs) s =
     (if within_tolerance e s m then 0 else 1) + passed_filter e evs (incomingMessage e m s)"
| "passed_filter e (Tick # evs) s = passed_filter e evs (update s)"

text \<open>
  The number of messages of a run that the tolerance test lets through and whose
  transform succeeds.
\<close>

fun passed_and_transformed :: "env \<Rightarrow> event list \<Rightarrow> display \<Rightarrow> nat" where
  "passed_and_transformed e [] s = 0"
| "passed_and_transformed e (Message m # evs) s =
     (if within_tolerance e s m \<or> transform_fails e s m then 0 else 1)
     + passed_and_transformed e evs (incomingMessage e m s)"
| "passed_and_transformed e (Tick # evs) s = passed_and_transformed e evs (update s)"

subsection \<open>A concrete environment\<close>

text \<open>
  An instance of the parameters, to run the display on concrete messages: exact
  arithmetic and Euclidean lengths (what the floats give where nothing is rounded), a
  transform service that either always succeeds (and only renames the frame) or always
  throws, and an arrow that starts at the origin.
\<close>

definition euclid_length :: "vec3 \<Rightarrow> real" where
  "euclid_length v = sqrt (vec_x v * vec_x v + vec_y v * vec_y v + vec_z v * vec_z v)"

definition quat_length :: "quaternion \<Rightarrow> real" where
  "quat_length q =
     sqrt (quat_w q * quat_w q + quat_x q * quat_x q + quat_y q * quat_y q + quat_z q * quat_z q)"

definition plain_arrow :: arrow where
  "plain_arrow =
     \<lparr>arrow_geometry = (1, 1, 1, 1), arrow_position = Vector3 0 0 0,
      arrow_orientation = (Vector3 1 0 0, Vector3 0 1 0, Vector3 0 0 1),
      arrow_color = (0, 0, 0, 0), arrow_user_data = None\<rparr>"

definition sample_env :: "bool \<Rightarrow> env" where
  "sample_env tf_ok =
     \<lparr>transformPose =
        (\<lambda>target pose. if tf_ok then Some (pose\<lparr>stamped_frame_id := target\<rparr>) else None),
      to_Real = (\<lambda>x. x),
      Real_minus = (\<lambda>a b. a - b),
      vec_length = euclid_length,
      quat_normalise = quat_length,
      getEulerZYX = (\<lambda>q. (0, 0, 0)),
      FromEulerAnglesZXY = (\<lambda>y p r. (Vector3 1 0 0, Vector3 0 1 0, Vector3 0 0 1)),
      robotToOgre = (\<lambda>v. Vector3 (- vec_y v) (vec_z v) (- vec_x v)),
      Arrow_new = (\<lambda>a b c d. plain_arrow\<lparr>arrow_geometry := (a, b, c, d)\<rparr>)\<rparr>"

text \<open>A message in the given frame, at the given place on the x axis, not rotated.\<close>

definition message_at :: "string \<Rightarrow> real \<Rightarrow> odometry" where
  "message_at frame d =
     \<lparr>header_frame_id = frame, header_stamp = 0,
      pose_position = Vector3 d 0 0, pose_orientation = Quaternion 1 0 0 0\<rparr>"

text \<open>A display in the fixed frame \<open>map\<close>, enabled, as the constructor leaves it.\<close>

definition sample_display :: display where
  "sample_display = (OdometryDisplay ''Odometry'')\<lparr>fixed_frame := ''map'', enabled := True\<rparr>"

text \<open>The same display holding the given arrows, after the given last message.\<close>

definition display_with :: "ptr list \<Rightarrow> odometry option \<Rightarrow> display" where
  "display_with ps m =
     sample_display\<lparr>arrows := ps, last_used_message := m,
       scene := (\<lambda>p. if p \<in> set ps then Some plain_arrow else None),
       next_ptr := Suc (fold max ps 0)\<rparr>"

subsection \<open>Well-formed states\<close>

text \<open>
  What the C++ needs of the deque to be defined: no address occurs twice in it, and every
  address in it was handed out by \<^verbatim>\<open>new\<close> and not yet deleted.
\<close>

definition well_formed :: "display \<Rightarrow> bool" where
  "well_formed s \<longleftrightarrow>
     distinct (arrows s) \<and> (\<forall>p \<in> set (arrows s). p < next_ptr s \<and> scene s p \<noteq> None)"

section \<open>Properties\<close>

subsection \<open>The loops\<close>

lemma delete_each_apply: "delete_each ps h p = (if p \<in> set ps then None else h p)"
  by (induction ps arbitrary: h) auto

lemma arrow_call_apply:
  "arrow_call q f h p = (if p = q then map_option f (h p) else h p)"
  by (auto simp: arrow_call_def split: option.splits)

lemma arrow_setColor_idem:
  "arrow_setColor r g b a (arrow_setColor r g b a x) = arrow_setColor r g b a x"
  by (simp add: arrow_setColor_def)

lemma setColor_each_apply:
  "setColor_each c ps h p =
     (if p \<in> set ps
      then map_option (arrow_setColor (color_r c) (color_g c) (color_b c) 1) (h p)
      else h p)"
  by (induction ps arbitrary: h)
     (auto simp: arrow_call_apply arrow_setColor_idem option.map_comp comp_def
           intro!: option.map_cong)

lemma update_loop_step:
  "unat (keep s) < length (arrows s) \<Longrightarrow>
   update_loop s =
     update_loop (s\<lparr>scene := (scene s)(hd (arrows s) := None), arrows := tl (arrows s)\<rparr>)"
  by (subst update_loop.simps) simp

lemma update_loop_stop: "\<not> unat (keep s) < length (arrows s) \<Longrightarrow> update_loop s = s"
  by (subst update_loop.simps) simp

lemma update_loop_arrows:
  "arrows (update_loop s) = drop (length (arrows s) - unat (keep s)) (arrows s)"
proof (induction s rule: update_loop.induct)
  case (1 s)
  show ?case
  proof (cases "unat (keep s) < length (arrows s)")
    case True
    then obtain p ps where ps: "arrows s = p # ps" by (cases "arrows s") auto
    from True 1 ps show ?thesis
      by (simp add: update_loop_step Suc_diff_le)
  next
    case False
    then show ?thesis by (simp add: update_loop_stop)
  qed
qed

lemma update_loop_scene:
  "scene (update_loop s) =
     delete_each (take (length (arrows s) - unat (keep s)) (arrows s)) (scene s)"
proof (induction s rule: update_loop.induct)
  case (1 s)
  show ?case
  proof (cases "unat (keep s) < length (arrows s)")
    case True
    then obtain p ps where ps: "arrows s = p # ps" by (cases "arrows s") auto
    from True 1 ps show ?thesis
      by (simp add: update_loop_step Suc_diff_le fun_upd_def)
  next
    case False
    then show ?thesis by (simp add: update_loop_stop)
  qed
qed

lemma update_loop_rest:
  "update_loop s = s\<lparr>scene := scene (update_loop s), arrows := arrows (update_loop s)\<rparr>"
proof (induction s rule: update_loop.induct)
  case (1 s)
  show ?case
  proof (cases "unat (keep s) < length (arrows s)")
    case True
    let ?t = "s\<lparr>scene := (scene s)(hd (arrows s) := None), arrows := tl (arrows s)\<rparr>"
    from True have eq: "update_loop s = update_loop ?t" by (rule update_loop_step)
    from 1 True
    have "update_loop ?t = ?t\<lparr>scene := scene (update_loop ?t), arrows := arrows (update_loop ?t)\<rparr>"
      by simp
    then have "update_loop ?t = s\<lparr>scene := scene (update_loop ?t), arrows := arrows (update_loop ?t)\<rparr>"
      by simp
    with eq show ?thesis by simp
  next
    case False
    then show ?thesis by (simp add: update_loop_stop)
  qed
qed

subsection \<open>One message\<close>

lemma transformArrow_frame:
  "arrows (transformArrow e m p s) = arrows s"
  "last_used_message (transformArrow e m p s) = last_used_message s"
  "next_ptr (transformArrow e m p s) = next_ptr s"
  "keep (transformArrow e m p s) = keep s"
  "name (transformArrow e m p s) = name s"
  "color (transformArrow e m p s) = color s"
  "fixed_frame (transformArrow e m p s) = fixed_frame s"
  "position_tolerance (transformArrow e m p s) = position_tolerance s"
  "angle_tolerance (transformArrow e m p s) = angle_tolerance s"
  by (simp_all add: transformArrow_def Let_def split: option.splits prod.splits)

lemma transformArrow_requests:
  "tf_requests (transformArrow e m p s) = tf_requests s @ [(fixed_frame s, message_pose s m)]"
  by (simp add: transformArrow_def Let_def split: option.splits prod.splits)

lemma transformArrow_errors:
  "ros_errors (transformArrow e m p s) =
     (if transformPose e (fixed_frame s) (message_pose s m) = None
      then ros_errors s @ [error_line (name s) (header_frame_id m) (fixed_frame s)]
      else ros_errors s)"
  by (simp add: transformArrow_def Let_def split: option.splits prod.splits)

lemma transformArrow_alive:
  "(scene (transformArrow e m p s) q = None) = (scene s q = None)"
  by (simp add: transformArrow_def Let_def arrow_call_apply split: option.splits prod.splits)

lemma processMessage_filtered: "within_tolerance e s m \<Longrightarrow> processMessage e m s = s"
  by (simp add: processMessage_def)

lemma processMessage_unfold:
  assumes "\<not> within_tolerance e s m"
  shows "processMessage e m s =
    (transformArrow e m (next_ptr s)
       (s\<lparr>scene := (scene s)(next_ptr s \<mapsto> Arrow_new e (13421773 / 16777216) (13421773 / 268435456) (13421773 / 67108864)
                    (13421773 / 67108864)),
          next_ptr := Suc (next_ptr s)\<rparr>))
    \<lparr>scene :=
       arrow_call (next_ptr s) (\<lambda>a. a\<lparr>arrow_user_data := Some (name s)\<rparr>)
         (arrow_call (next_ptr s)
            (arrow_setColor (color_r (color s)) (color_g (color s)) (color_b (color s)) 1)
            (scene (transformArrow e m (next_ptr s)
               (s\<lparr>scene := (scene s)(next_ptr s \<mapsto> Arrow_new e (13421773 / 16777216) (13421773 / 268435456) (13421773 / 67108864)
                    (13421773 / 67108864)),
                  next_ptr := Suc (next_ptr s)\<rparr>)))),
     arrows := arrows s @ [next_ptr s],
     last_used_message := Some m\<rparr>"
proof -
  define s1 where
    "s1 = s\<lparr>scene := (scene s)(next_ptr s \<mapsto> Arrow_new e (13421773 / 16777216) (13421773 / 268435456) (13421773 / 67108864)
                    (13421773 / 67108864)),
            next_ptr := Suc (next_ptr s)\<rparr>"
  define s2 where "s2 = transformArrow e m (next_ptr s) s1"
  define s3 where
    "s3 = s2\<lparr>scene := arrow_call (next_ptr s)
            (arrow_setColor (color_r (color s2)) (color_g (color s2)) (color_b (color s2)) 1)
            (scene s2)\<rparr>"
  define s4 where
    "s4 = s3\<lparr>scene := arrow_call (next_ptr s)
            (\<lambda>a. a\<lparr>arrow_user_data := Some (name s3)\<rparr>) (scene s3)\<rparr>"
  have p1: "processMessage e m s = (let arrow = next_ptr s;
            s = s\<lparr>scene := (scene s)(arrow \<mapsto> Arrow_new e (13421773 / 16777216) (13421773 / 268435456) (13421773 / 67108864)
                    (13421773 / 67108864)),
                  next_ptr := Suc arrow\<rparr>;
            s = transformArrow e m arrow s;
            s = s\<lparr>scene := arrow_call arrow
                  (arrow_setColor (color_r (color s)) (color_g (color s)) (color_b (color s)) 1) (scene s)\<rparr>;
            s = s\<lparr>scene := arrow_call arrow
                  (\<lambda>a. a\<lparr>arrow_user_data := Some (name s)\<rparr>) (scene s)\<rparr>
        in s\<lparr>arrows := arrows s @ [arrow], last_used_message := Some m\<rparr>)" (is "_ = ?rhs")
    using assms unfolding processMessage_def by (simp only: if_False)
  have p2: "?rhs = s4\<lparr>arrows := arrows s4 @ [next_ptr s], last_used_message := Some m\<rparr>"
    unfolding s4_def s3_def s2_def s1_def by (simp only: Let_def)
  have c2: "color s2 = color s" "name s2 = name s" "arrows s2 = arrows s"
    by (simp_all add: s2_def s1_def transformArrow_frame)
  have s3': "s3 = s2\<lparr>scene := arrow_call (next_ptr s)
            (arrow_setColor (color_r (color s)) (color_g (color s)) (color_b (color s)) 1)
            (scene s2)\<rparr>"
    by (simp only: s3_def c2)
  have n3: "name s3 = name s" "arrows s3 = arrows s" by (simp_all add: s3' c2)
  have s4': "s4 = s3\<lparr>scene := arrow_call (next_ptr s)
            (\<lambda>a. a\<lparr>arrow_user_data := Some (name s)\<rparr>) (scene s3)\<rparr>"
    by (simp only: s4_def n3)
  have a4: "arrows s4 = arrows s" by (simp add: s4' n3)
  have "processMessage e m s = s4\<lparr>arrows := arrows s @ [next_ptr s], last_used_message := Some m\<rparr>"
    by (simp only: p1 p2 a4)
  also have "\<dots> = s2\<lparr>scene := arrow_call (next_ptr s) (\<lambda>a. a\<lparr>arrow_user_data := Some (name s)\<rparr>)
         (arrow_call (next_ptr s)
            (arrow_setColor (color_r (color s)) (color_g (color s)) (color_b (color s)) 1)
            (scene s2)), arrows := arrows s @ [next_ptr s], last_used_message := Some m\<rparr>"
    by (simp add: s4' s3')
  finally show ?thesis unfolding s2_def s1_def .
qed

lemma message_pose_new_arrow:
  "message_pose (s\<lparr>scene := h, next_ptr := n\<rparr>) m = message_pose s m"
  by (simp add: message_pose_def Let_def)

lemma processMessage_accepted:
  assumes "\<not> within_tolerance e s m"
  shows "arrows (processMessage e m s) = arrows s @ [next_ptr s]"
    and "last_used_message (processMessage e m s) = Some m"
    and "next_ptr (processMessage e m s) = Suc (next_ptr s)"
    and "scene (processMessage e m s) (next_ptr s) \<noteq> None"
    and "tf_requests (processMessage e m s) = tf_requests s @ [(fixed_frame s, message_pose s m)]"
    and "ros_errors (processMessage e m s) =
           (if transform_fails e s m
            then ros_errors s @ [error_line (name s) (header_frame_id m) (fixed_frame s)]
            else ros_errors s)"
  by (simp_all add: processMessage_unfold [OF assms] transformArrow_frame transformArrow_requests
        transformArrow_errors transformArrow_alive arrow_call_apply transform_fails_def
        message_pose_new_arrow)

lemma processMessage_frame:
  "keep (processMessage e m s) = keep s"
  "fixed_frame (processMessage e m s) = fixed_frame s"
  "name (processMessage e m s) = name s"
  "position_tolerance (processMessage e m s) = position_tolerance s"
  "angle_tolerance (processMessage e m s) = angle_tolerance s"
  by (cases "within_tolerance e s m";
      simp add: processMessage_filtered processMessage_unfold transformArrow_frame)+

lemma within_tolerance_first: "last_used_message s = None \<Longrightarrow> \<not> within_tolerance e s m"
  by (simp add: within_tolerance_def)

lemma clear_fields:
"arrows (clear s) = []" "last_used_message (clear s) = None"
  "scene (clear s) = delete_each (arrows s) (scene s)"
  by (simp_all add: clear_def split: option.splits)

subsection \<open>The concrete environment\<close>

lemma euclid_on_axis:
  "euclid_length (vec_sub (sample_env ok) (Vector3 a 0 0) (Vector3 b 0 0)) = \<bar>a - b\<bar>"
  by (simp add: euclid_length_def vec_sub_def sample_env_def)

lemma quat_length_same: "quat_length (quat_sub (sample_env ok) q q) = 0"
  by (simp add: quat_length_def quat_sub_def sample_env_def)

lemma sample_env_exact:
  "Ogre_Vector3 (sample_env ok) v = v" "Ogre_Quaternion (sample_env ok) q = q"
  "vec_length (sample_env ok) = euclid_length" "quat_normalise (sample_env ok) = quat_length"
  by (simp_all add: Ogre_Vector3_def Ogre_Quaternion_def sample_env_def)

lemma within_tolerance_sample:
  "last_used_message s = Some (message_at f a) \<Longrightarrow>
   within_tolerance (sample_env ok) s (message_at g b) =
     (\<bar>a - b\<bar> < position_tolerance s \<and> 0 < angle_tolerance s)"
  by (simp add: within_tolerance_def sample_env_exact message_at_def euclid_on_axis
        quat_length_same)

lemma sample_display_fields:
  "arrows sample_display = []" "last_used_message sample_display = None"
  "next_ptr sample_display = 0" "fixed_frame sample_display = ''map''"
  "name sample_display = ''Odometry''" "ros_errors sample_display = []"
  "tf_requests sample_display = []" "keep sample_display = 100"
  "position_tolerance sample_display = 13421773 / 134217728"
  "angle_tolerance sample_display = 13421773 / 134217728"
  by (simp_all add: sample_display_def OdometryDisplay_def)

lemma display_with_fields:
  "arrows (display_with ps l) = ps" "last_used_message (display_with ps l) = l"
  "next_ptr (display_with ps l) = Suc (fold max ps 0)"
  "fixed_frame (display_with ps l) = ''map''"
  "position_tolerance (display_with ps l) = 13421773 / 134217728"
  "angle_tolerance (display_with ps l) = 13421773 / 134217728"
  "keep (display_with ps l) = 100"
  by (simp_all add: display_with_def sample_display_fields)

lemma sample_env_fails: "transform_fails (sample_env False) s m"
  by (simp add: transform_fails_def sample_env_def)

lemma sample_env_succeeds: "\<not> transform_fails (sample_env True) s m"
  by (simp add: transform_fails_def sample_env_def)

subsection \<open>Runs without a capacity\<close>

lemma update_unbounded: "keep s = 0 \<Longrightarrow> update s = s"
  by (simp add: update_def)

lemma incomingMessage_fields:
  "keep (incomingMessage e m s) = keep s"
  "arrows (incomingMessage e m s) = arrows (processMessage e m s)"
  by (simp_all add: incomingMessage_def causeRender_def processMessage_frame)

lemma incomingMessage_length:
  "length (arrows (incomingMessage e m s)) =
     length (arrows s) + (if within_tolerance e s m then 0 else 1)"
  by (simp add: incomingMessage_fields processMessage_filtered processMessage_accepted)

lemma run_unbounded_length:
  "keep s = 0 \<Longrightarrow> length (arrows (run e evs s)) = length (arrows s) + passed_filter e evs s"
proof (induction evs arbitrary: s)
  case Nil
  then show ?case by simp
next
  case (Cons ev evs)
  show ?case
  proof (cases ev)
    case (Message m)
    from Cons.prems have "keep (incomingMessage e m s) = 0"
      by (simp add: incomingMessage_fields)
    from Cons.IH [OF this] Message show ?thesis
      by (simp add: incomingMessage_length)
  next
    case Tick
    from Cons.prems have "update s = s" by (rule update_unbounded)
    with Cons.IH [OF Cons.prems] Tick show ?thesis by simp
  qed
qed

subsection \<open>The operations keep the state well formed\<close>

lemma processMessage_alive:
  assumes "\<not> within_tolerance e s m"
  shows "(scene (processMessage e m s) q = None) = (q \<noteq> next_ptr s \<and> scene s q = None)"
  by (simp add: processMessage_unfold [OF assms] arrow_call_apply transformArrow_alive)

lemma well_formed_OdometryDisplay: "well_formed (OdometryDisplay n)"
  by (simp add: well_formed_def OdometryDisplay_def)

lemma well_formed_clear: "well_formed (clear s)"
  by (simp add: well_formed_def clear_fields)

lemma well_formed_processMessage:
  assumes "well_formed s"
  shows "well_formed (processMessage e m s)"
proof (cases "within_tolerance e s m")
  case True
  with assms show ?thesis by (simp add: processMessage_filtered)
next
  case False
  from assms have d: "distinct (arrows s)"
    and b: "\<forall>p \<in> set (arrows s). p < next_ptr s \<and> scene s p \<noteq> None"
    by (simp_all add: well_formed_def)
  from b have "next_ptr s \<notin> set (arrows s)" by auto
  with d b show ?thesis
    by (auto simp: well_formed_def processMessage_accepted [OF False]
          processMessage_alive [OF False])
qed

lemma well_formed_update:
  assumes "well_formed s"
  shows "well_formed (update s)"
proof (cases "0 < keep s")
  case False
  with assms show ?thesis by (simp add: update_def)
next
  case True
  let ?n = "length (arrows s) - unat (keep s)"
  from assms have d: "distinct (take ?n (arrows s) @ drop ?n (arrows s))"
    and b: "\<forall>p \<in> set (arrows s). p < next_ptr s \<and> scene s p \<noteq> None"
    by (simp_all add: well_formed_def)
  have r: "next_ptr (update s) = next_ptr s"
    using True arg_cong [OF update_loop_rest [of s], of next_ptr] by (simp add: update_def)
  from d have i: "set (take ?n (arrows s)) \<inter> set (drop ?n (arrows s)) = {}"
    and dd: "distinct (drop ?n (arrows s))"
    by (simp_all only: distinct_append)
  have "p \<in> set (arrows s)" if "p \<in> set (drop ?n (arrows s))" for p
    using that by (rule in_set_dropD)
  with True dd i b r show ?thesis
    by (auto simp: well_formed_def update_def update_loop_arrows update_loop_scene
          delete_each_apply)
qed

lemma well_formed_setColor: "well_formed s \<Longrightarrow> well_formed (setColor c s)"
  by (simp add: well_formed_def setColor_def causeRender_def propertyChanged_def
        setColor_each_apply)

lemma well_formed_run: "well_formed s \<Longrightarrow> well_formed (run e evs s)"
proof (induction evs arbitrary: s)
  case Nil
  then show ?case by simp
next
  case (Cons ev evs)
  have "well_formed (incomingMessage e m s)" for m
    using well_formed_processMessage [OF Cons.prems, of e m]
    by (simp add: well_formed_def incomingMessage_def causeRender_def)
  with Cons well_formed_update [OF Cons.prems] show ?case
    by (cases ev) simp_all
qed

section \<open>The claims\<close>

text \<open>
  Claim C1, as the code has it. A message that the tolerance test drops never reaches
  the transform service: the state is as before, and so are the requests made to the
  service and the error lines. A message that the test lets through and whose
  transform throws is not dropped: the request is made, exactly one error line is
  written, and then the arrow is set up and appended to the buffer (which grows by one)
  and the message becomes the last used message.
\<close>

theorem transform_failure_still_appends:
  "(within_tolerance e s m \<longrightarrow>
      processMessage e m s = s
      \<and> tf_requests (processMessage e m s) = tf_requests s
      \<and> ros_errors (processMessage e m s) = ros_errors s)
   \<and> (\<not> within_tolerance e s m \<and> transform_fails e s m \<longrightarrow>
      tf_requests (processMessage e m s) = tf_requests s @ [(fixed_frame s, message_pose s m)]
      \<and> arrows (processMessage e m s) = arrows s @ [next_ptr s]
      \<and> length (arrows (processMessage e m s)) = Suc (length (arrows s))
      \<and> scene (processMessage e m s) (next_ptr s) \<noteq> None
      \<and> last_used_message (processMessage e m s) = Some m
      \<and> ros_errors (processMessage e m s)
          = ros_errors s @ [error_line (name s) (header_frame_id m) (fixed_frame s)])"
proof (cases "within_tolerance e s m")
  case True
  then show ?thesis by (simp add: processMessage_filtered)
next
  case False
  from processMessage_accepted [OF False] False show ?thesis by simp
qed

theorem transform_failure_still_appends_witness:
  "within_tolerance (sample_env False) (display_with [0] (Some (message_at ''odom'' 0)))
     (message_at ''odom'' (1 / 32))
   \<and> transform_fails (sample_env False) (display_with [0] (Some (message_at ''odom'' 0)))
     (message_at ''odom'' (1 / 32))
   \<and> tf_requests (processMessage (sample_env False) (message_at ''odom'' (1 / 32))
        (display_with [0] (Some (message_at ''odom'' 0)))) = []
   \<and> ros_errors (processMessage (sample_env False) (message_at ''odom'' (1 / 32))
        (display_with [0] (Some (message_at ''odom'' 0)))) = []
   \<and> \<not> within_tolerance (sample_env False) sample_display (message_at ''odom'' 0)
   \<and> transform_fails (sample_env False) sample_display (message_at ''odom'' 0)
   \<and> arrows (processMessage (sample_env False) (message_at ''odom'' 0) sample_display) = [0]
   \<and> last_used_message (processMessage (sample_env False) (message_at ''odom'' 0) sample_display)
       = Some (message_at ''odom'' 0)
   \<and> length (tf_requests (processMessage (sample_env False) (message_at ''odom'' 0)
        sample_display)) = 1
   \<and> length (ros_errors (processMessage (sample_env False) (message_at ''odom'' 0)
        sample_display)) = 1"
proof -
  let ?s = "display_with [0] (Some (message_at ''odom'' 0))"
  have h: "last_used_message ?s = Some (message_at ''odom'' 0)"
    by (simp add: display_with_fields)
  have w: "within_tolerance (sample_env False) ?s (message_at ''odom'' (1 / 32))"
    by (simp add: within_tolerance_sample [OF h] display_with_fields)
  have q: "tf_requests ?s = []" "ros_errors ?s = []"
    by (simp_all add: display_with_def sample_display_fields)
  have f: "\<not> within_tolerance (sample_env False) sample_display (message_at ''odom'' 0)"
    by (simp add: within_tolerance_first sample_display_fields)
  have t: "transform_fails (sample_env False) s m" for s m
    by (rule sample_env_fails)
  from transform_failure_still_appends
         [of "sample_env False" ?s "message_at ''odom'' (1 / 32)"] w
  have a: "tf_requests (processMessage (sample_env False) (message_at ''odom'' (1 / 32)) ?s) = []
    \<and> ros_errors (processMessage (sample_env False) (message_at ''odom'' (1 / 32)) ?s) = []"
    by (simp add: q)
  from transform_failure_still_appends
         [of "sample_env False" sample_display "message_at ''odom'' 0"] f t
  have b: "arrows (processMessage (sample_env False) (message_at ''odom'' 0) sample_display) = [0]
    \<and> last_used_message (processMessage (sample_env False) (message_at ''odom'' 0) sample_display)
        = Some (message_at ''odom'' 0)
    \<and> length (tf_requests (processMessage (sample_env False) (message_at ''odom'' 0)
         sample_display)) = 1
    \<and> length (ros_errors (processMessage (sample_env False) (message_at ''odom'' 0)
         sample_display)) = 1"
    by (simp add: sample_display_fields)
  from w t f a b show ?thesis by simp
qed

text \<open>
  Claim C1 as the spec states it (a failed transform leaves the buffer and the last used
  message as they were) fails: on an empty display, with a transform service that
  throws, the buffer has one arrow afterwards and the message is the last used one.
\<close>

theorem transform_failure_aborts_counterexample:
  "transform_fails (sample_env False) sample_display (message_at ''odom'' 0)
   \<and> length (arrows sample_display) = 0
   \<and> length (arrows (processMessage (sample_env False) (message_at ''odom'' 0) sample_display)) = 1
   \<and> last_used_message sample_display = None
   \<and> last_used_message (processMessage (sample_env False) (message_at ''odom'' 0) sample_display)
       = Some (message_at ''odom'' 0)"
proof -
  have f: "\<not> within_tolerance (sample_env False) sample_display (message_at ''odom'' 0)"
    by (simp add: within_tolerance_first sample_display_fields)
  show ?thesis
    by (simp add: processMessage_accepted [OF f] sample_env_fails sample_display_fields)
qed

text \<open>
  Claim C2, as the code has it. The tolerance test compares the new message with the
  last used message, not with the message before it, and it computes in floats. With a
  last used message \<open>l\<close>, the positions and orientations of \<open>l\<close> and of the message are
  converted to floats; \<open>d\<close> is the length that Ogre gives for the float difference of the
  two positions, and \<open>a\<close> the value that Ogre's \<^verbatim>\<open>normalise\<close> gives for the float
  difference of the two orientations. The message is dropped (buffer and last used
  message as before; indeed the whole state) exactly when \<open>d\<close> is below the position
  tolerance and \<open>a\<close> is below the angle tolerance. Otherwise an arrow is created and
  appended and the message becomes the last used one.
\<close>

theorem filter_against_last_used:
  assumes "last_used_message s = Some l"
  shows "((arrows (processMessage e m s) = arrows s
            \<and> last_used_message (processMessage e m s) = last_used_message s)
          \<longleftrightarrow>
          (vec_length e
             (vec_sub e (Ogre_Vector3 e (pose_position l)) (Ogre_Vector3 e (pose_position m)))
             < position_tolerance s
           \<and> quat_normalise e
               (quat_sub e (Ogre_Quaternion e (pose_orientation l))
                  (Ogre_Quaternion e (pose_orientation m)))
               < angle_tolerance s))
    \<and> (if vec_length e
             (vec_sub e (Ogre_Vector3 e (pose_position l)) (Ogre_Vector3 e (pose_position m)))
             < position_tolerance s
           \<and> quat_normalise e
               (quat_sub e (Ogre_Quaternion e (pose_orientation l))
                  (Ogre_Quaternion e (pose_orientation m)))
               < angle_tolerance s
        then processMessage e m s = s
        else arrows (processMessage e m s) = arrows s @ [next_ptr s]
           \<and> scene (processMessage e m s) (next_ptr s) \<noteq> None
           \<and> last_used_message (processMessage e m s) = Some m)"
proof -
  define c where
    "c \<longleftrightarrow>
      (vec_length e
         (vec_sub e (Ogre_Vector3 e (pose_position l)) (Ogre_Vector3 e (pose_position m)))
         < position_tolerance s
       \<and> quat_normalise e
           (quat_sub e (Ogre_Quaternion e (pose_orientation l))
              (Ogre_Quaternion e (pose_orientation m)))
           < angle_tolerance s)"
  have w: "within_tolerance e s m \<longleftrightarrow> c"
    using assms by (simp add: within_tolerance_def Let_def c_def)
  have "((arrows (processMessage e m s) = arrows s
            \<and> last_used_message (processMessage e m s) = last_used_message s) \<longleftrightarrow> c)
    \<and> (if c then processMessage e m s = s
        else arrows (processMessage e m s) = arrows s @ [next_ptr s]
           \<and> scene (processMessage e m s) (next_ptr s) \<noteq> None
           \<and> last_used_message (processMessage e m s) = Some m)"
  proof (cases c)
    case True
    with w have "processMessage e m s = s" by (simp add: processMessage_filtered)
    with True show ?thesis by simp
  next
    case False
    with w have "\<not> within_tolerance e s m" by simp
    from processMessage_accepted [OF this] False show ?thesis by simp
  qed
  then show ?thesis unfolding c_def .
qed

theorem filter_against_last_used_witness:
  "last_used_message (display_with [0] (Some (message_at ''odom'' 0)))
     = Some (message_at ''odom'' 0)
   \<and> processMessage (sample_env True) (message_at ''odom'' (1 / 20))
        (display_with [0] (Some (message_at ''odom'' 0)))
       = display_with [0] (Some (message_at ''odom'' 0))
   \<and> arrows (processMessage (sample_env True) (message_at ''odom'' (1 / 2))
        (display_with [0] (Some (message_at ''odom'' 0)))) = [0, 1]
   \<and> last_used_message (processMessage (sample_env True) (message_at ''odom'' (1 / 2))
        (display_with [0] (Some (message_at ''odom'' 0)))) = Some (message_at ''odom'' (1 / 2))"
proof -
  let ?s = "display_with [0] (Some (message_at ''odom'' 0))"
  have h: "last_used_message ?s = Some (message_at ''odom'' 0)"
    by (simp add: display_with_fields)
  have d: "euclid_length (vec_sub (sample_env True) (Vector3 a 0 0) (Vector3 b 0 0)) = \<bar>a - b\<bar>"
    "quat_length (quat_sub (sample_env True) q q) = 0" for a b q
    by (simp_all add: euclid_on_axis quat_length_same)
  from filter_against_last_used [OF h, of "sample_env True" "message_at ''odom'' (1 / 20)"]
  have b: "processMessage (sample_env True) (message_at ''odom'' (1 / 20)) ?s = ?s"
    by (simp add: message_at_def sample_env_exact d display_with_fields)
  from filter_against_last_used [OF h, of "sample_env True" "message_at ''odom'' (1 / 2)"]
  have c: "arrows (processMessage (sample_env True) (message_at ''odom'' (1 / 2)) ?s) = [0, 1]
    \<and> last_used_message (processMessage (sample_env True) (message_at ''odom'' (1 / 2)) ?s)
        = Some (message_at ''odom'' (1 / 2))"
    by (simp add: message_at_def sample_env_exact d display_with_fields)
  from h b c show ?thesis by simp
qed

text \<open>
  Claim C2 as the spec states it, on the deltas between two consecutive messages, fails
  when the first of the two was dropped. The tolerances are those of the constructor
  (0.1 as a float) and the last used message is at 0. The message at 3/32 is dropped;
  the next one, at 3/16, is within both tolerances of the message before it (3/32 away,
  with the same orientation), and is accepted all the same, being 3/16 from the last
  used one. All the coordinates are floats, and so are their differences and lengths:
  nothing is rounded.
\<close>

theorem consecutive_pair_counterexample:
  "last_used_message (display_with [0] (Some (message_at ''odom'' 0)))
     = Some (message_at ''odom'' 0)
   \<and> processMessage (sample_env True) (message_at ''odom'' (3 / 32))
        (display_with [0] (Some (message_at ''odom'' 0)))
       = display_with [0] (Some (message_at ''odom'' 0))
   \<and> vec_length (sample_env True)
        (vec_sub (sample_env True)
           (Ogre_Vector3 (sample_env True) (pose_position (message_at ''odom'' (3 / 32))))
           (Ogre_Vector3 (sample_env True) (pose_position (message_at ''odom'' (3 / 16)))))
       < position_tolerance (display_with [0] (Some (message_at ''odom'' 0)))
   \<and> quat_normalise (sample_env True)
        (quat_sub (sample_env True)
           (Ogre_Quaternion (sample_env True) (pose_orientation (message_at ''odom'' (3 / 32))))
           (Ogre_Quaternion (sample_env True) (pose_orientation (message_at ''odom'' (3 / 16)))))
       < angle_tolerance (display_with [0] (Some (message_at ''odom'' 0)))
   \<and> arrows (processMessage (sample_env True) (message_at ''odom'' (3 / 16))
        (processMessage (sample_env True) (message_at ''odom'' (3 / 32))
           (display_with [0] (Some (message_at ''odom'' 0))))) = [0, 1]
   \<and> last_used_message (processMessage (sample_env True) (message_at ''odom'' (3 / 16))
        (processMessage (sample_env True) (message_at ''odom'' (3 / 32))
           (display_with [0] (Some (message_at ''odom'' 0)))))
       = Some (message_at ''odom'' (3 / 16))"
proof -
  let ?s = "display_with [0] (Some (message_at ''odom'' 0))"
  have h: "last_used_message ?s = Some (message_at ''odom'' 0)"
    by (simp add: display_with_fields)
  have "within_tolerance (sample_env True) ?s (message_at ''odom'' (3 / 32))"
    by (simp add: within_tolerance_sample [OF h] display_with_fields)
  then have b: "processMessage (sample_env True) (message_at ''odom'' (3 / 32)) ?s = ?s"
    by (rule processMessage_filtered)
  have "\<not> within_tolerance (sample_env True) ?s (message_at ''odom'' (3 / 16))"
    by (simp add: within_tolerance_sample [OF h] display_with_fields)
  from processMessage_accepted [OF this]
  have c: "arrows (processMessage (sample_env True) (message_at ''odom'' (3 / 16)) ?s) = [0, 1]"
    "last_used_message (processMessage (sample_env True) (message_at ''odom'' (3 / 16)) ?s)
       = Some (message_at ''odom'' (3 / 16))"
    by (simp_all add: display_with_fields)
  have d: "vec_length (sample_env True)
        (vec_sub (sample_env True)
           (Ogre_Vector3 (sample_env True) (pose_position (message_at ''odom'' (3 / 32))))
           (Ogre_Vector3 (sample_env True) (pose_position (message_at ''odom'' (3 / 16)))))
       < position_tolerance ?s"
    "quat_normalise (sample_env True)
        (quat_sub (sample_env True)
           (Ogre_Quaternion (sample_env True) (pose_orientation (message_at ''odom'' (3 / 32))))
           (Ogre_Quaternion (sample_env True) (pose_orientation (message_at ''odom'' (3 / 16)))))
       < angle_tolerance ?s"
    by (simp_all add: sample_env_exact message_at_def euclid_on_axis quat_length_same
          display_with_fields)
  from h b c d show ?thesis by simp
qed

text \<open>
  Claim C3. When \<open>keep\<close> is positive, \<^verbatim>\<open>update\<close> leaves at most \<open>keep\<close> arrows:
  the buffer before is the removed arrows followed by the buffer after, so the removed
  ones are the oldest and the survivors the newest, in their order of arrival. Exactly
  the removed arrows are deleted from the scene; when no address occurs twice in the
  buffer, every survivor is still in the scene, unchanged.
\<close>

theorem update_keeps_newest:
  assumes "0 < keep s"
  shows "length (arrows (update s)) \<le> unat (keep s)
    \<and> arrows (update s) = drop (length (arrows s) - unat (keep s)) (arrows s)
    \<and> arrows s = take (length (arrows s) - unat (keep s)) (arrows s) @ arrows (update s)
    \<and> (\<forall>p. scene (update s) p =
          (if p \<in> set (take (length (arrows s) - unat (keep s)) (arrows s))
           then None else scene s p))
    \<and> (distinct (arrows s) \<longrightarrow>
          (\<forall>p \<in> set (arrows (update s)). scene (update s) p = scene s p))"
proof -
  let ?n = "length (arrows s) - unat (keep s)"
  have a: "arrows (update s) = drop ?n (arrows s)"
    using assms by (simp add: update_def update_loop_arrows)
  have len: "length (arrows (update s)) \<le> unat (keep s)"
    unfolding a by simp
  have app: "arrows s = take ?n (arrows s) @ arrows (update s)"
    unfolding a by simp
  have sc: "\<forall>p. scene (update s) p = (if p \<in> set (take ?n (arrows s)) then None else scene s p)"
    using assms by (simp add: update_def update_loop_scene delete_each_apply)
  have "\<forall>p \<in> set (arrows (update s)). scene (update s) p = scene s p" if d: "distinct (arrows s)"
  proof
    fix p assume p: "p \<in> set (arrows (update s))"
    from d have "distinct (take ?n (arrows s) @ drop ?n (arrows s))" by simp
    then have "set (take ?n (arrows s)) \<inter> set (drop ?n (arrows s)) = {}"
      by (simp only: distinct_append)
    with p a have "p \<notin> set (take ?n (arrows s))" by auto
    with sc show "scene (update s) p = scene s p" by simp
  qed
  with a len app sc show ?thesis by blast
qed

theorem update_keeps_newest_witness:
  "0 < keep ((display_with [0, 1, 2, 3, 4] None)\<lparr>keep := 3\<rparr>)
   \<and> arrows (update ((display_with [0, 1, 2, 3, 4] None)\<lparr>keep := 3\<rparr>)) = [2, 3, 4]
   \<and> scene (update ((display_with [0, 1, 2, 3, 4] None)\<lparr>keep := 3\<rparr>)) 1 = None
   \<and> scene (update ((display_with [0, 1, 2, 3, 4] None)\<lparr>keep := 3\<rparr>)) 2 = Some plain_arrow"
  using update_keeps_newest [of "(display_with [0, 1, 2, 3, 4] None)\<lparr>keep := 3\<rparr>"]
  by (simp add: display_with_def sample_display_def OdometryDisplay_def)

text \<open>
  Claim C4, as the code has it. While \<open>keep\<close> is 0, \<^verbatim>\<open>update\<close> changes nothing, and
  after any run of messages and ticks from a cleared display the buffer holds one arrow
  for every message that the tolerance test let through, whether its transform
  succeeded or not.
\<close>

theorem unbounded_buffer_counts_unfiltered:
  assumes "keep s = 0"
  shows "length (arrows (run e evs (clear s))) = passed_filter e evs (clear s)
    \<and> update s = s"
proof -
  from assms have "keep (clear s) = 0" by (simp add: clear_def)
  from run_unbounded_length [OF this] assms show ?thesis
    by (simp add: clear_fields update_unbounded)
qed

theorem unbounded_buffer_counts_unfiltered_witness:
  "keep (sample_display\<lparr>keep := 0\<rparr>) = 0
   \<and> length (arrows (run (sample_env False)
        [Message (message_at ''odom'' 0), Tick, Message (message_at ''odom'' (1 / 20)),
         Message (message_at ''odom'' (1 / 2)), Tick]
        (clear (sample_display\<lparr>keep := 0\<rparr>)))) = 2"
proof -
  let ?s = "sample_display\<lparr>keep := 0\<rparr>"
  let ?e = "sample_env False"
  have k: "keep ?s = 0" by simp
  have c: "clear ?s = ?s" by (simp add: clear_def sample_display_def OdometryDisplay_def)
  have u: "update t = t" if "keep t = 0" for t using that by (simp add: update_def)
  have f0: "\<not> within_tolerance ?e ?s (message_at ''odom'' 0)"
    by (simp add: within_tolerance_first sample_display_fields)
  define s1 where "s1 = incomingMessage ?e (message_at ''odom'' 0) ?s"
  have l1: "last_used_message s1 = Some (message_at ''odom'' 0)"
    and k1: "keep s1 = 0" and p1: "position_tolerance s1 = 13421773 / 134217728"
    "angle_tolerance s1 = 13421773 / 134217728"
    by (simp_all add: s1_def incomingMessage_def causeRender_def processMessage_accepted [OF f0]
          processMessage_frame sample_display_fields)
  have f1: "within_tolerance ?e s1 (message_at ''odom'' (1 / 20))"
    by (simp add: within_tolerance_sample [OF l1] p1)
  define s2 where "s2 = incomingMessage ?e (message_at ''odom'' (1 / 20)) s1"
  have l2: "last_used_message s2 = Some (message_at ''odom'' 0)"
    and k2: "keep s2 = 0" and p2: "position_tolerance s2 = 13421773 / 134217728"
    "angle_tolerance s2 = 13421773 / 134217728"
    by (simp_all add: s2_def incomingMessage_def causeRender_def processMessage_filtered [OF f1]
          l1 k1 p1)
  have f2: "\<not> within_tolerance ?e s2 (message_at ''odom'' (1 / 2))"
    by (simp add: within_tolerance_sample [OF l2] p2)
  have "passed_filter ?e
        [Message (message_at ''odom'' 0), Tick, Message (message_at ''odom'' (1 / 20)),
         Message (message_at ''odom'' (1 / 2)), Tick] ?s = 2"
    using f0 f1 f2 by (simp add: u k1 k2 s1_def [symmetric] s2_def [symmetric])
  with unbounded_buffer_counts_unfiltered [OF k, of ?e
        "[Message (message_at ''odom'' 0), Tick, Message (message_at ''odom'' (1 / 20)),
         Message (message_at ''odom'' (1 / 2)), Tick]"] k
  show ?thesis by (simp only: c)
qed

text \<open>
  Claim C4 as the spec states it, leaving out the messages whose transform failed, fails:
  after one message whose transform throws, no message has passed the test with a
  successful transform, and the buffer holds one arrow.
\<close>

theorem failed_transform_not_counted_counterexample:
  "keep (sample_display\<lparr>keep := 0\<rparr>) = 0
   \<and> transform_fails (sample_env False) (clear (sample_display\<lparr>keep := 0\<rparr>))
        (message_at ''odom'' 0)
   \<and> passed_and_transformed (sample_env False) [Message (message_at ''odom'' 0)]
        (clear (sample_display\<lparr>keep := 0\<rparr>)) = 0
   \<and> length (arrows (run (sample_env False) [Message (message_at ''odom'' 0)]
        (clear (sample_display\<lparr>keep := 0\<rparr>)))) = 1"
proof -
  let ?s = "clear (sample_display\<lparr>keep := 0\<rparr>)"
  have f0: "\<not> within_tolerance (sample_env False) ?s (message_at ''odom'' 0)"
    by (simp add: within_tolerance_first clear_fields)
  have "arrows ?s = []" by (simp add: clear_fields)
  with f0 show ?thesis
    by (simp add: sample_env_fails incomingMessage_length)
qed

text \<open>
  Claim C5. \<^verbatim>\<open>setColor\<close> stores the color, leaves the buffer as it is, and gives
  every arrow of the buffer the color with alpha 1, changing nothing else of the arrow
  (so not its position or orientation); arrows outside the buffer are not touched.
\<close>

theorem setColor_recolors:
  "color (setColor c s) = c
   \<and> arrows (setColor c s) = arrows s
   \<and> (\<forall>p \<in> set (arrows s). \<forall>a. scene s p = Some a \<longrightarrow>
         scene (setColor c s) p
           = Some (a\<lparr>arrow_color := (color_r c, color_g c, color_b c, 1)\<rparr>))
   \<and> (\<forall>p. p \<notin> set (arrows s) \<longrightarrow> scene (setColor c s) p = scene s p)"
  by (simp add: setColor_def causeRender_def propertyChanged_def setColor_each_apply
        arrow_setColor_def)

theorem setColor_recolors_witness:
  "1 \<in> set (arrows (display_with [0, 1] None))
   \<and> scene (display_with [0, 1] None) 1 = Some plain_arrow
   \<and> 2 \<notin> set (arrows (display_with [0, 1] None))
   \<and> scene (setColor (Color 0 1 0) (display_with [0, 1] None)) 1
       = Some (plain_arrow\<lparr>arrow_color := (0, 1, 0, 1)\<rparr>)
   \<and> scene (setColor (Color 0 1 0) (display_with [0, 1] None)) 2 = None"
  using setColor_recolors [of "Color 0 1 0" "display_with [0, 1] None"]
  by (simp add: display_with_def sample_display_def OdometryDisplay_def)

text \<open>
  Claim C6. \<^verbatim>\<open>setKeep\<close> stores the number and leaves the buffer, the scene and the
  last used message as they are; the next \<^verbatim>\<open>update\<close> trims the buffer to the new
  capacity, deleting the oldest arrows, when the capacity is positive.
\<close>

theorem setKeep_is_lazy:
  "keep (setKeep n s) = n
   \<and> arrows (setKeep n s) = arrows s
   \<and> scene (setKeep n s) = scene s
   \<and> last_used_message (setKeep n s) = last_used_message s
   \<and> arrows (update (setKeep n s)) =
       (if 0 < n then drop (length (arrows s) - unat n) (arrows s) else arrows s)
   \<and> scene (update (setKeep n s)) =
       (if 0 < n then delete_each (take (length (arrows s) - unat n) (arrows s)) (scene s)
        else scene s)"
  by (simp add: setKeep_def propertyChanged_def update_def update_loop_arrows update_loop_scene)

text \<open>
  Claim C7. After \<^verbatim>\<open>disable\<close> and then \<^verbatim>\<open>enable\<close> the buffer is empty, there is
  no last used message, and the display is subscribed to its topic; buffer, last used
  message and scene are those after a single \<^verbatim>\<open>clear\<close>, and every arrow that was
  in the buffer is deleted.
\<close>

theorem disable_enable_is_clear:
  "arrows (enable (disable s)) = []
   \<and> last_used_message (enable (disable s)) = None
   \<and> sub (enable (disable s)) = Some (topic s, 5)
   \<and> arrows (enable (disable s)) = arrows (clear s)
   \<and> last_used_message (enable (disable s)) = last_used_message (clear s)
   \<and> scene (enable (disable s)) = scene (clear s)
   \<and> (\<forall>p \<in> set (arrows s). scene (enable (disable s)) p = None)"
  by (simp add: enable_def disable_def onEnable_def onDisable_def subscribe_def
        unsubscribe_def clear_def delete_each_apply split: option.splits)

theorem disable_enable_is_clear_witness:
  "1 \<in> set (arrows (display_with [0, 1] (Some (message_at ''odom'' 0))))
   \<and> scene (display_with [0, 1] (Some (message_at ''odom'' 0))) 1 = Some plain_arrow
   \<and> scene (enable (disable (display_with [0, 1] (Some (message_at ''odom'' 0))))) 1 = None
   \<and> arrows (enable (disable (display_with [0, 1] (Some (message_at ''odom'' 0))))) = []"
proof -
  let ?s = "display_with [0, 1] (Some (message_at ''odom'' 0))"
  have m: "1 \<in> set (arrows ?s)" and a: "scene ?s 1 = Some plain_arrow"
    by (simp_all add: display_with_def)
  from disable_enable_is_clear [of ?s]
  have "\<forall>p \<in> set (arrows ?s). scene (enable (disable ?s)) p = None"
    and e: "arrows (enable (disable ?s)) = []"
    by blast+
  with m have "scene (enable (disable ?s)) 1 = None" by blast
  with m a e show ?thesis by blast
qed

text \<open>
  Claim C8. \<^verbatim>\<open>fixedFrameChanged\<close> empties the buffer whatever it held, deletes
  every arrow that was in it (and no other), drops the last used message, and sets the
  target frame of the message filter to the fixed frame.
\<close>

theorem fixedFrameChanged_clears:
  "arrows (fixedFrameChanged s) = []
   \<and> last_used_message (fixedFrameChanged s) = None
   \<and> tf_filter_target (fixedFrameChanged s) = fixed_frame s
   \<and> (\<forall>p \<in> set (arrows s). scene (fixedFrameChanged s) p = None)
   \<and> (\<forall>p. p \<notin> set (arrows s) \<longrightarrow> scene (fixedFrameChanged s) p = scene s p)"
  by (simp add: fixedFrameChanged_def clear_def delete_each_apply split: option.splits)

theorem fixedFrameChanged_clears_witness:
  "1 \<in> set (arrows (display_with [0, 1] (Some (message_at ''odom'' 0))))
   \<and> 7 \<notin> set (arrows (display_with [0, 1] (Some (message_at ''odom'' 0))))
   \<and> scene (display_with [0, 1] (Some (message_at ''odom'' 0))) 1 = Some plain_arrow
   \<and> scene (fixedFrameChanged (display_with [0, 1] (Some (message_at ''odom'' 0)))) 1 = None
   \<and> arrows (fixedFrameChanged (display_with [0, 1] (Some (message_at ''odom'' 0)))) = []"
  using fixedFrameChanged_clears [of "display_with [0, 1] (Some (message_at ''odom'' 0))"]
  by (simp add: display_with_def sample_display_def OdometryDisplay_def)

text \<open>
  Claim C9. The pose handed to the transform service carries the frame of the message,
  or the fixed frame when the message's frame is the empty string; the target is the
  fixed frame. Choosing the frame writes no error: \<^verbatim>\<open>transformArrow\<close> writes an
  error line exactly when the service throws on that request, and
  \<^verbatim>\<open>processMessage\<close> makes the request, and can write the line, only for a message
  that the tolerance test lets through.
\<close>

theorem source_frame_of_request:
  "stamped_frame_id (message_pose s m)
     = (if header_frame_id m = [] then fixed_frame s else header_frame_id m)
   \<and> rotation (message_pose s m) = pose_orientation m
   \<and> origin (message_pose s m) = pose_position m
   \<and> stamped_stamp (message_pose s m) = header_stamp m
   \<and> tf_requests (transformArrow e m p s)
       = tf_requests s @ [(fixed_frame s, message_pose s m)]
   \<and> ros_errors (transformArrow e m p s)
       = (if transformPose e (fixed_frame s) (message_pose s m) = None
          then ros_errors s @ [error_line (name s) (header_frame_id m) (fixed_frame s)]
          else ros_errors s)
   \<and> tf_requests (processMessage e m s)
       = (if within_tolerance e s m then tf_requests s
          else tf_requests s @ [(fixed_frame s, message_pose s m)])
   \<and> ros_errors (processMessage e m s)
       = (if \<not> within_tolerance e s m
             \<and> transformPose e (fixed_frame s) (message_pose s m) = None
          then ros_errors s @ [error_line (name s) (header_frame_id m) (fixed_frame s)]
          else ros_errors s)"
proof -
  have "stamped_frame_id (message_pose s m)
     = (if header_frame_id m = [] then fixed_frame s else header_frame_id m)"
    "rotation (message_pose s m) = pose_orientation m"
    "origin (message_pose s m) = pose_position m"
    "stamped_stamp (message_pose s m) = header_stamp m"
    by (simp_all add: message_pose_def Let_def)
  moreover have "tf_requests (processMessage e m s)
       = (if within_tolerance e s m then tf_requests s
          else tf_requests s @ [(fixed_frame s, message_pose s m)])"
    "ros_errors (processMessage e m s)
       = (if \<not> within_tolerance e s m
             \<and> transformPose e (fixed_frame s) (message_pose s m) = None
          then ros_errors s @ [error_line (name s) (header_frame_id m) (fixed_frame s)]
          else ros_errors s)"
    by (cases "within_tolerance e s m";
        simp add: processMessage_filtered processMessage_accepted transform_fails_def)+
  ultimately show ?thesis
    by (simp only: transformArrow_requests transformArrow_errors simp_thms)
qed

theorem source_frame_of_request_witness:
  "tf_requests (processMessage (sample_env True) (message_at [] 0) sample_display)
     = [(''map'', \<lparr>rotation = Quaternion 1 0 0 0, origin = Vector3 0 0 0,
                    stamped_stamp = 0, stamped_frame_id = ''map''\<rparr>)]
   \<and> ros_errors (processMessage (sample_env True) (message_at [] 0) sample_display) = []
   \<and> tf_requests (processMessage (sample_env True) (message_at ''odom'' 0) sample_display)
     = [(''map'', \<lparr>rotation = Quaternion 1 0 0 0, origin = Vector3 0 0 0,
                    stamped_stamp = 0, stamped_frame_id = ''odom''\<rparr>)]"
proof -
  have f: "\<not> within_tolerance (sample_env True) sample_display m" for m
    by (simp add: within_tolerance_first sample_display_fields)
  have p: "message_pose sample_display (message_at fr 0) =
      \<lparr>rotation = Quaternion 1 0 0 0, origin = Vector3 0 0 0, stamped_stamp = 0,
       stamped_frame_id = (if fr = [] then ''map'' else fr)\<rparr>" for fr
    by (simp add: message_pose_def Let_def message_at_def sample_display_fields)
  have t: "transformPose (sample_env True) fr q \<noteq> None" for fr q
    by (simp add: sample_env_def)
  from source_frame_of_request
         [where s = sample_display and m = "message_at [] 0" and e = "sample_env True"]
       source_frame_of_request
         [where s = sample_display and m = "message_at ''odom'' 0" and e = "sample_env True"]
  show ?thesis
    by (simp add: f p t sample_display_fields)
qed

text \<open>
  Claim C10. With no last used message the tolerance test is skipped: the message is
  accepted whatever the tolerances are, an arrow is created and appended, and the
  message becomes the last used one. There is no last used message after the
  constructor, \<^verbatim>\<open>clear\<close>, \<^verbatim>\<open>reset\<close>, \<^verbatim>\<open>onDisable\<close> and
  \<^verbatim>\<open>fixedFrameChanged\<close>.
\<close>

theorem first_message_always_accepted:
  assumes "last_used_message s = None"
  shows "arrows (processMessage e m s) = arrows s @ [next_ptr s]
    \<and> scene (processMessage e m s) (next_ptr s) \<noteq> None
    \<and> last_used_message (processMessage e m s) = Some m
    \<and> last_used_message (OdometryDisplay n) = None
    \<and> last_used_message (clear t) = None
    \<and> last_used_message (reset t) = None
    \<and> last_used_message (onDisable t) = None
    \<and> last_used_message (fixedFrameChanged t) = None"
proof -
  from assms have "\<not> within_tolerance e s m" by (rule within_tolerance_first)
  then show ?thesis
    by (simp add: processMessage_accepted OdometryDisplay_def clear_def reset_def
          onDisable_def fixedFrameChanged_def split: option.splits)
qed

theorem first_message_always_accepted_witness:
  "last_used_message (sample_display\<lparr>position_tolerance := 0, angle_tolerance := 0\<rparr>) = None
   \<and> arrows (processMessage (sample_env True) (message_at ''odom'' 0)
        (sample_display\<lparr>position_tolerance := 0, angle_tolerance := 0\<rparr>)) = [0]
   \<and> last_used_message (processMessage (sample_env True) (message_at ''odom'' 0)
        (sample_display\<lparr>position_tolerance := 0, angle_tolerance := 0\<rparr>))
       = Some (message_at ''odom'' 0)"
proof -
  let ?s = "sample_display\<lparr>position_tolerance := 0, angle_tolerance := 0\<rparr>"
  have h: "last_used_message ?s = None" by (simp add: sample_display_fields)
  from first_message_always_accepted [OF h, of "sample_env True" "message_at ''odom'' 0"] h
  show ?thesis by (simp add: sample_display_fields)
qed

end
